theory Spec2Isabelle
  imports Main
begin

section \<open>Python values, exceptions and observable effects\<close>

text \<open>
  The module \<^verbatim>\<open>charmhelpers/fetch/__init__.py\<close> is dynamically typed: configuration
  values decoded from YAML, the results of \<^verbatim>\<open>can_handle\<close> and of \<^verbatim>\<open>install\<close> are
  arbitrary Python objects. The values that the module distinguishes are \<^verbatim>\<open>None\<close>,
  the booleans, integers, strings and lists.
\<close>

datatype pyval = PyNone | PyBool bool | PyInt int | PyStr string | PyList "pyval list"

text \<open>Python truthiness, as used by \<^verbatim>\<open>if key:\<close> and \<^verbatim>\<open>if not installed_to:\<close>.\<close>

fun truthy :: "pyval \<Rightarrow> bool" where
  "truthy PyNone = False"
| "truthy (PyBool b) = b"
| "truthy (PyInt i) = (i \<noteq> 0)"
| "truthy (PyStr s) = (s \<noteq> [])"
| "truthy (PyList xs) = (xs \<noteq> [])"

text \<open>
  \<^verbatim>\<open>template.format(arg)\<close> for a template with one \<^verbatim>\<open>{}\<close> field and a string
  argument: the first \<^verbatim>\<open>{}\<close> is replaced by the argument.
\<close>

fun format1 :: "string \<Rightarrow> string \<Rightarrow> string" where
  "format1 [] a = []"
| "format1 [c] a = [c]"
| "format1 (c # d # cs) a =
     (if c = CHR ''{'' \<and> d = CHR ''}'' then a @ cs else c # format1 (d # cs) a)"

text \<open>
  A message is either a rendered string, or, where rendering needs Python's \<^verbatim>\<open>repr\<close>
  of a list, the template together with its arguments.
\<close>

datatype message = NoMessage | Plain string | Format string "pyval list"

datatype exn =
    UnhandledSource message
  | SourceConfigError message
  | TypeError
  | AttributeError
  | ValueError message
  | IndexError
  | CalledProcessError int "string list"
  | OtherError string

type_synonym 'a result = "exn + 'a"

text \<open>
  Everything the module does to the outside world is recorded, in order: log lines,
  external processes (\<^verbatim>\<open>subprocess.call\<close> and \<^verbatim>\<open>subprocess.check_call\<close>), whole-file
  writes, and the calls made to \<^verbatim>\<open>add_source\<close> and to the methods of the fetch handlers.
  Every function returns its outcome together with the effects it performed.
\<close>

datatype effect =
    Log message "string option"
  | Call "string list"
  | CheckCall "string list"
  | FileWrite string string
  | AddSourceCalled pyval pyval
  | CanHandleCalled string string
  | InstallCalled string string

section \<open>Package operations\<close>

text \<open>
  The apt cache maps a package name to a package object whose \<^verbatim>\<open>current_ver\<close> is a
  version object or \<^verbatim>\<open>None\<close>; looking up an unknown name raises \<^verbatim>\<open>KeyError\<close>.
\<close>

record package =
  current_ver :: "string option"

type_synonym cache = "string \<rightharpoonup> package"

fun filter_installed_packages_loop ::
  "cache \<Rightarrow> string list \<Rightarrow> string list \<Rightarrow> string list \<times> effect list" where
  "filter_installed_packages_loop cache [] pkgs = (pkgs, [])"
| "filter_installed_packages_loop cache (package # packages) pkgs =
     (case cache package of
        Some p \<Rightarrow>
          (if current_ver p \<noteq> None
           then filter_installed_packages_loop cache packages pkgs
           else filter_installed_packages_loop cache packages (pkgs @ [package]))
      | None \<Rightarrow>
          (let (r, tr) = filter_installed_packages_loop cache packages (pkgs @ [package])
           in (r, Log (Plain (format1 ''Package {} has no installation candidate.'' package))
                      (Some ''WARNING'') # tr)))"

definition filter_installed_packages :: "cache \<Rightarrow> string list \<Rightarrow> string list \<times> effect list" where
  "filter_installed_packages cache packages = filter_installed_packages_loop cache packages []"

section \<open>Fetch handlers and the dispatcher\<close>

text \<open>
  A fetch handler is an object with the two methods of \<^verbatim>\<open>BaseFetchHandler\<close>.
  \<^verbatim>\<open>can_handle\<close> returns \<^verbatim>\<open>True\<close> or a string explaining why not (its docstring);
  \<^verbatim>\<open>install\<close> returns the path of the unpacked files or raises. \<open>ident\<close> stands for the
  identity of the object, by which the recorded calls are told apart.
\<close>

record handler =
  ident :: string
  can_handle :: "string \<Rightarrow> pyval"
  install :: "string \<Rightarrow> pyval result"

text \<open>The methods of \<^verbatim>\<open>BaseFetchHandler\<close> itself.\<close>

definition BaseFetchHandler :: "string \<Rightarrow> handler" where
  "BaseFetchHandler i =
     \<lparr> ident = i,
       can_handle = (\<lambda>source. PyStr ''Wrong source type''),
       install = (\<lambda>source. Inl (UnhandledSource (Plain (format1 ''Wrong source type {}'' source)))) \<rparr>"

text \<open>
  The loop \<^verbatim>\<open>for handler in handlers\<close> of \<^verbatim>\<open>install_remote\<close>; \<open>installed_to\<close> is the
  loop-carried variable. \<^verbatim>\<open>UnhandledSource\<close> is swallowed, any other exception leaves
  the loop.
\<close>

fun install_loop :: "handler list \<Rightarrow> string \<Rightarrow> pyval \<Rightarrow> pyval result \<times> effect list" where
  "install_loop [] source installed_to = (Inr installed_to, [])"
| "install_loop (h # handlers) source installed_to =
     (case install h source of
        Inr v \<Rightarrow>
          (let (r, tr) = install_loop handlers source v
           in (r, InstallCalled (ident h) source # tr))
      | Inl (UnhandledSource m) \<Rightarrow>
          (let (r, tr) = install_loop handlers source installed_to
           in (r, InstallCalled (ident h) source # tr))
      | Inl e \<Rightarrow> (Inl e, [InstallCalled (ident h) source]))"

text \<open>
  \<^verbatim>\<open>install_remote(source)\<close>; \<open>plugin_list\<close> is what \<^verbatim>\<open>plugins()\<close> returned. The list
  comprehension calls \<^verbatim>\<open>can_handle\<close> on every plugin and keeps those that answered the
  object \<^verbatim>\<open>True\<close>.
\<close>

definition install_remote :: "handler list \<Rightarrow> string \<Rightarrow> pyval result \<times> effect list" where
  "install_remote plugin_list source =
     (let handlers = filter (\<lambda>h. can_handle h source = PyBool True) plugin_list;
          tr1 = map (\<lambda>h. CanHandleCalled (ident h) source) plugin_list;
          (r, tr2) = install_loop handlers source PyNone
      in case r of
           Inl e \<Rightarrow> (Inl e, tr1 @ tr2)
         | Inr installed_to \<Rightarrow>
             (if \<not> truthy installed_to
              then (Inl (UnhandledSource (Plain (format1 ''No handler found for source {}'' source))),
                    tr1 @ tr2)
              else (Inr installed_to, tr1 @ tr2)))"

subsection \<open>Vocabulary for the dispatcher's properties\<close>

definition eligible :: "handler list \<Rightarrow> string \<Rightarrow> handler list" where
  "eligible hs source = filter (\<lambda>h. can_handle h source = PyBool True) hs"

fun raises_unhandled :: "pyval result \<Rightarrow> bool" where
  "raises_unhandled (Inl (UnhandledSource m)) = True"
| "raises_unhandled r = False"

fun raises_other :: "pyval result \<Rightarrow> bool" where
  "raises_other (Inl (UnhandledSource m)) = False"
| "raises_other (Inl e) = True"
| "raises_other (Inr v) = False"

text \<open>The values returned by those handlers of a list whose \<^verbatim>\<open>install\<close> returns.\<close>

definition returned_values :: "handler list \<Rightarrow> string \<Rightarrow> pyval list" where
  "returned_values hs source =
     concat (map (\<lambda>h. case install h source of Inr v \<Rightarrow> [v] | Inl e \<Rightarrow> []) hs)"

definition can_handle_calls :: "handler list \<Rightarrow> string \<Rightarrow> effect list" where
  "can_handle_calls hs source = map (\<lambda>h. CanHandleCalled (ident h) source) hs"

definition install_calls :: "handler list \<Rightarrow> string \<Rightarrow> effect list" where
  "install_calls hs source = map (\<lambda>h. InstallCalled (ident h) source) hs"

subsection \<open>The handlers of the test suite\<close>

definition h1 :: handler where
  "h1 = \<lparr> ident = ''h1'', can_handle = (\<lambda>source. PyStr ''Nope''),
          install = (\<lambda>source. Inr PyNone) \<rparr>"

definition h2 :: handler where
  "h2 = \<lparr> ident = ''h2'', can_handle = (\<lambda>source. PyBool True),
          install = (\<lambda>source. Inl (UnhandledSource NoMessage)) \<rparr>"

definition h3 :: handler where
  "h3 = \<lparr> ident = ''h3'', can_handle = (\<lambda>source. PyBool True),
          install = (\<lambda>source. Inr (PyStr ''foo'')) \<rparr>"

text \<open>Two handlers that both accept and both install, to different places.\<close>

definition hA :: handler where
  "hA = \<lparr> ident = ''hA'', can_handle = (\<lambda>source. PyBool True),
          install = (\<lambda>source. Inr (PyStr ''/srv/a'')) \<rparr>"

definition hB :: handler where
  "hB = \<lparr> ident = ''hB'', can_handle = (\<lambda>source. PyBool True),
          install = (\<lambda>source. Inr (PyStr ''/srv/b'')) \<rparr>"

section \<open>External processes\<close>

text \<open>
  What the module cannot decide by itself is read from the environment: the charm
  configuration (\<^verbatim>\<open>hookenv.config\<close>), the YAML decoder (\<^verbatim>\<open>yaml.safe_load\<close>), the exit
  status of each external command, the apt cache and the codename reported by
  \<^verbatim>\<open>lsb_release()\<close>.
\<close>

record env =
  config :: "string \<Rightarrow> string option"
  safe_load :: "string option \<Rightarrow> pyval result"
  exit_status :: "string list \<Rightarrow> int"
  apt_cache :: cache
  distrib_codename :: string

text \<open>\<^verbatim>\<open>subprocess.check_call\<close> raises on a non-zero exit status, \<^verbatim>\<open>subprocess.call\<close> does not.\<close>

definition check_call :: "env \<Rightarrow> string list \<Rightarrow> unit result \<times> effect list" where
  "check_call env cmd =
     (if exit_status env cmd = 0 then Inr () else Inl (CalledProcessError (exit_status env cmd) cmd),
      [CheckCall cmd])"

definition call :: "env \<Rightarrow> string list \<Rightarrow> unit result \<times> effect list" where
  "call env cmd = (Inr (), [Call cmd])"

text \<open>The \<^verbatim>\<open>packages\<close> argument of \<^verbatim>\<open>apt_install\<close> and \<^verbatim>\<open>apt_purge\<close>: one name or a list.\<close>

datatype packages = Name string | Names "string list"

fun packages_pyval :: "packages \<Rightarrow> pyval" where
  "packages_pyval (Name p) = PyStr p"
| "packages_pyval (Names ps) = PyList (map PyStr ps)"

fun packages_args :: "packages \<Rightarrow> string list" where
  "packages_args (Name p) = [p]"
| "packages_args (Names ps) = ps"

definition apt_install :: "env \<Rightarrow> packages \<Rightarrow> string list option \<Rightarrow> bool \<Rightarrow> unit result \<times> effect list" where
  "apt_install env pkgs options fatal =
     (let options = (case options of None \<Rightarrow> [] | Some os \<Rightarrow> os);
          cmd = [''apt-get'', ''-y''] @ options @ [''install''] @ packages_args pkgs;
          lg = Log (Format ''Installing {} with options: {}''
                      [packages_pyval pkgs, PyList (map PyStr options)]) None
      in if fatal
         then (let (r, tr) = check_call env cmd in (r, lg # tr))
         else (let (r, tr) = call env cmd in (r, lg # tr)))"

definition apt_update :: "env \<Rightarrow> bool \<Rightarrow> unit result \<times> effect list" where
  "apt_update env fatal =
     (let cmd = [''apt-get'', ''update'']
      in if fatal then check_call env cmd else call env cmd)"

definition apt_purge :: "env \<Rightarrow> packages \<Rightarrow> bool \<Rightarrow> unit result \<times> effect list" where
  "apt_purge env pkgs fatal =
     (let cmd = [''apt-get'', ''-y'', ''purge''] @ packages_args pkgs;
          lg = Log (Format ''Purging {}'' [packages_pyval pkgs]) None
      in if fatal
         then (let (r, tr) = check_call env cmd in (r, lg # tr))
         else (let (r, tr) = call env cmd in (r, lg # tr)))"

section \<open>Source registration\<close>

definition CLOUD_ARCHIVE :: string where
  "CLOUD_ARCHIVE =
     ''# Ubuntu Cloud Archive\<newline>deb http://ubuntu-cloud.archive.canonical.com/ubuntu {} main\<newline>''"

definition PROPOSED_POCKET :: string where
  "PROPOSED_POCKET =
     ''# Proposed\<newline>deb http://archive.ubuntu.com/ubuntu {}-proposed main universe multiverse restricted\<newline>''"

definition startswith :: "string \<Rightarrow> string \<Rightarrow> bool" where
  "startswith s p = (take (length p) s = p)"

text \<open>\<^verbatim>\<open>s.split(sep)\<close> for a one-character separator.\<close>

fun py_split :: "char \<Rightarrow> string \<Rightarrow> string list" where
  "py_split sep [] = [[]]"
| "py_split sep (c # cs) =
     (if c = sep then [] # py_split sep cs
      else (case py_split sep cs of
              w # ws \<Rightarrow> (c # w) # ws
            | [] \<Rightarrow> [[c]]))"

text \<open>
  \<^verbatim>\<open>add_source(source, key=None)\<close>. The first effect records the call itself.
  \<^verbatim>\<open>source.startswith\<close> exists only on strings. A key that is truthy but not a string
  cannot be passed to \<^verbatim>\<open>apt-key\<close>: the process is not started and \<^verbatim>\<open>TypeError\<close> is raised.
\<close>

definition add_source :: "env \<Rightarrow> pyval \<Rightarrow> pyval \<Rightarrow> unit result \<times> effect list" where
  "add_source env source key =
     (case source of
        PyStr s \<Rightarrow>
          (let (r, tr) =
                 (if startswith s ''ppa:'' \<or> startswith s ''http:''
                  then check_call env [''add-apt-repository'', ''--yes'', s]
                  else if startswith s ''cloud:''
                  then (let (pkgs, tr1) = filter_installed_packages (apt_cache env) [''ubuntu-cloud-keyring''];
                            (r2, tr2) = apt_install env (Names pkgs) None True
                        in case r2 of
                             Inl e \<Rightarrow> (Inl e, tr1 @ tr2)
                           | Inr u \<Rightarrow>
                               (Inr (), tr1 @ tr2 @
                                  [FileWrite ''/etc/apt/sources.list.d/cloud-archive.list''
                                     (format1 CLOUD_ARCHIVE (last (py_split CHR '':'' s)))]))
                  else if s = ''proposed''
                  then (Inr (), [FileWrite ''/etc/apt/sources.list.d/proposed.list''
                                   (format1 PROPOSED_POCKET (distrib_codename env))])
                  else (Inr (), []))
           in case r of
                Inl e \<Rightarrow> (Inl e, AddSourceCalled source key # tr)
              | Inr u \<Rightarrow>
                  (if truthy key
                   then (case key of
                           PyStr k \<Rightarrow>
                             (let (r', tr') = check_call env [''apt-key'', ''import'', k]
                              in (r', AddSourceCalled source key # tr @ tr'))
                         | _ \<Rightarrow> (Inl TypeError, AddSourceCalled source key # tr))
                   else (Inr (), AddSourceCalled source key # tr)))
      | _ \<Rightarrow> (Inl AttributeError, [AddSourceCalled source key]))"

section \<open>Configuration-driven source setup\<close>

fun is_basestring :: "pyval \<Rightarrow> bool" where
  "is_basestring (PyStr s) = True"
| "is_basestring v = False"

fun py_len :: "pyval \<Rightarrow> nat result" where
  "py_len (PyStr s) = Inr (length s)"
| "py_len (PyList xs) = Inr (length xs)"
| "py_len v = Inl TypeError"

fun py_getitem :: "pyval \<Rightarrow> nat \<Rightarrow> pyval result" where
  "py_getitem (PyStr s) i = (if i < length s then Inr (PyStr [s ! i]) else Inl IndexError)"
| "py_getitem (PyList xs) i = (if i < length xs then Inr (xs ! i) else Inl IndexError)"
| "py_getitem v i = Inl TypeError"

text \<open>The loop \<^verbatim>\<open>for src_num in range(len(sources))\<close>.\<close>

fun add_sources_loop :: "env \<Rightarrow> pyval \<Rightarrow> pyval \<Rightarrow> nat list \<Rightarrow> unit result \<times> effect list" where
  "add_sources_loop env sources keys [] = (Inr (), [])"
| "add_sources_loop env sources keys (src_num # rest) =
     (case py_getitem sources src_num of
        Inl e \<Rightarrow> (Inl e, [])
      | Inr s \<Rightarrow>
          (case py_getitem keys src_num of
             Inl e \<Rightarrow> (Inl e, [])
           | Inr k \<Rightarrow>
               (let (r, tr) = add_source env s k
                in case r of
                     Inl e \<Rightarrow> (Inl e, tr)
                   | Inr u \<Rightarrow>
                       (let (r', tr') = add_sources_loop env sources keys rest
                        in (r', tr @ tr')))))"

text \<open>Lines 121 to 123: the keys value is decoded only when it is present.\<close>

definition load_keys :: "env \<Rightarrow> string \<Rightarrow> pyval result" where
  "load_keys env keys_var =
     (case config env keys_var of
        None \<Rightarrow> Inr PyNone
      | Some raw \<Rightarrow> safe_load env (Some raw))"

definition configure_sources :: "env \<Rightarrow> bool \<Rightarrow> string \<Rightarrow> string \<Rightarrow> unit result \<times> effect list" where
  "configure_sources env update sources_var keys_var =
     (case safe_load env (config env sources_var) of
        Inl e \<Rightarrow> (Inl e, [])
      | Inr sources \<Rightarrow>
          (case load_keys env keys_var of
             Inl e \<Rightarrow> (Inl e, [])
           | Inr keys \<Rightarrow>
               (let (r, tr) =
                      (if is_basestring sources \<and> (keys = PyNone \<or> is_basestring keys)
                       then add_source env sources keys
                       else (case py_len sources of
                               Inl e \<Rightarrow> (Inl e, [])
                             | Inr n \<Rightarrow>
                                 (case py_len keys of
                                    Inl e \<Rightarrow> (Inl e, [])
                                  | Inr m \<Rightarrow>
                                      (if \<not> n = m
                                       then (Inl (SourceConfigError
                                                    (Plain ''Install sources and keys lists are different lengths'')),
                                             [])
                                       else add_sources_loop env sources keys [0..<n]))))
                in case r of
                     Inl e \<Rightarrow> (Inl e, tr)
                   | Inr u \<Rightarrow>
                       (if update
                        then (let (r', tr') = apt_update env True in (r', tr @ tr'))
                        else (Inr (), tr)))))"

definition is_add_source_call :: "effect \<Rightarrow> bool" where
  "is_add_source_call e = (case e of AddSourceCalled s k \<Rightarrow> True | _ \<Rightarrow> False)"

definition add_source_calls :: "effect list \<Rightarrow> effect list" where
  "add_source_calls tr = filter is_add_source_call tr"

section \<open>The environment of the test suite\<close>

definition FAKE_APT_CACHE :: cache where
  "FAKE_APT_CACHE =
     [''vim'' \<mapsto> \<lparr>current_ver = Some ''2:7.3.547-6ubuntu5''\<rparr>,
      ''emacs'' \<mapsto> \<lparr>current_ver = None\<rparr>]"

definition test_yaml :: "string option \<Rightarrow> pyval result" where
  "test_yaml raw =
     (if raw = Some ''source'' then Inr (PyStr ''source'')
      else if raw = Some ''key'' then Inr (PyStr ''key'')
      else if raw = Some ''[sourcea, sourceb]\<newline>'' then Inr (PyList [PyStr ''sourcea'', PyStr ''sourceb''])
      else if raw = Some ''[keya, null]\<newline>'' then Inr (PyList [PyStr ''keya'', PyNone])
      else if raw = Some ''[keya]\<newline>'' then Inr (PyList [PyStr ''keya''])
      else Inl (OtherError ''YAMLError''))"

definition test_env :: "string option \<Rightarrow> string option \<Rightarrow> env" where
  "test_env raw_sources raw_keys =
     \<lparr> config = (\<lambda>v. if v = ''install_sources'' then raw_sources
                      else if v = ''install_keys'' then raw_keys else None),
       safe_load = test_yaml,
       exit_status = (\<lambda>cmd. 0),
       apt_cache = FAKE_APT_CACHE,
       distrib_codename = ''precise'' \<rparr>"

section \<open>URL utilities of the base handler\<close>
























section \<open>Properties of the package filter\<close>

lemma format1_package:
  "format1 ''Package {} has no installation candidate.'' p =
     ''Package '' @ p @ '' has no installation candidate.''"
  by simp

lemma filter_installed_packages_loop_eq:
  "filter_installed_packages_loop cache packages pkgs =
     (pkgs @ filter (\<lambda>p. case cache p of None \<Rightarrow> True | Some pk \<Rightarrow> current_ver pk = None) packages,
      map (\<lambda>p. Log (Plain (''Package '' @ p @ '' has no installation candidate.'')) (Some ''WARNING''))
          (filter (\<lambda>p. cache p = None) packages))"
proof (induction packages arbitrary: pkgs)
  case Nil
  show ?case by simp
next
  case (Cons p ps)
  show ?case
  proof (cases "cache p")
    case None
    then show ?thesis
      using Cons.IH [of "pkgs @ [p]"] by (simp del: format1.simps add: format1_package)
  next
    case (Some pk)
    then show ?thesis
      using Cons.IH [of "pkgs @ [p]"] Cons.IH [of pkgs] by (cases "current_ver pk") simp_all
  qed
qed

text \<open>
  Claim C8. For every list of package names, \<open>filter_installed_packages\<close> returns the
  names that are absent from the cache or have no installed version, in the order of the
  input, and logs one warning for each absent name, in that order.
\<close>
theorem filter_installed_packages_spec:
  "filter_installed_packages cache packages =
     (filter (\<lambda>p. case cache p of None \<Rightarrow> True | Some pk \<Rightarrow> current_ver pk = None) packages,
      map (\<lambda>p. Log (Plain (''Package '' @ p @ '' has no installation candidate.'')) (Some ''WARNING''))
          (filter (\<lambda>p. cache p = None) packages))"
  unfolding filter_installed_packages_def
  by (simp only: filter_installed_packages_loop_eq append_Nil)

theorem filter_installed_packages_spec_witness:
  "filter_installed_packages
     [''vim'' \<mapsto> \<lparr>current_ver = Some ''2:7.3.547-6ubuntu5''\<rparr>, ''emacs'' \<mapsto> \<lparr>current_ver = None\<rparr>]
     [''joe'', ''vim'', ''emacs''] =
   ([''joe'', ''emacs''],
    [Log (Plain ''Package joe has no installation candidate.'') (Some ''WARNING'')])"
  using filter_installed_packages_spec
    [of "[''vim'' \<mapsto> \<lparr>current_ver = Some ''2:7.3.547-6ubuntu5''\<rparr>, ''emacs'' \<mapsto> \<lparr>current_ver = None\<rparr>]"
        "[''joe'', ''vim'', ''emacs'']"]
  by simp

section \<open>Properties of the dispatcher\<close>

lemma install_loop_no_other_error:
  "\<forall>h\<in>set hs. \<not> raises_other (install h source) \<Longrightarrow>
   install_loop hs source acc =
     (Inr (last (acc # returned_values hs source)), install_calls hs source)"
proof (induction hs arbitrary: acc)
  case Nil
  show ?case by (simp add: returned_values_def install_calls_def)
next
  case (Cons h hs)
  have rest: "\<forall>h\<in>set hs. \<not> raises_other (install h source)"
    using Cons.prems by simp
  have here: "\<not> raises_other (install h source)"
    using Cons.prems by simp
  show ?case
  proof (cases "install h source")
    case (Inr v)
    then show ?thesis
      using Cons.IH [OF rest, of v]
      by (simp add: returned_values_def install_calls_def)
  next
    case (Inl e)
    with here obtain m where e: "e = UnhandledSource m"
      by (cases e) simp_all
    show ?thesis
      using Inl e Cons.IH [OF rest, of acc]
      by (simp add: returned_values_def install_calls_def)
  qed
qed

lemma format1_no_handler:
  "format1 ''No handler found for source {}'' source = ''No handler found for source '' @ source"
  by simp

lemma install_remote_no_other_error:
  assumes "\<forall>h\<in>set (eligible hs source). \<not> raises_other (install h source)"
  shows "install_remote hs source =
     (if truthy (last (PyNone # returned_values (eligible hs source) source))
      then Inr (last (PyNone # returned_values (eligible hs source) source))
      else Inl (UnhandledSource (Plain (''No handler found for source '' @ source))),
      can_handle_calls hs source @ install_calls (eligible hs source) source)"
  using install_loop_no_other_error [OF assms, of PyNone]
  unfolding install_remote_def eligible_def can_handle_calls_def
  by (simp del: format1.simps add: format1_no_handler)

lemma install_loop_calls:
  "set (snd (install_loop hs source acc)) \<subseteq> set (install_calls hs source)"
proof (induction hs arbitrary: acc)
  case Nil
  show ?case by simp
next
  case (Cons h hs)
  show ?case
  proof (cases "install h source")
    case (Inr v)
    then show ?thesis
      using Cons.IH [of v] by (auto simp: install_calls_def split: prod.splits)
  next
    case (Inl e)
    then show ?thesis
      using Cons.IH [of acc] by (cases e) (auto simp: install_calls_def split: prod.splits)
  qed
qed

lemma install_remote_trace:
  "\<exists>tr. snd (install_remote hs source) = can_handle_calls hs source @ tr \<and>
        set tr \<subseteq> set (install_calls (eligible hs source) source)"
proof -
  obtain r tr where lp: "install_loop (eligible hs source) source PyNone = (r, tr)"
    by (cases "install_loop (eligible hs source) source PyNone")
  have sub: "set tr \<subseteq> set (install_calls (eligible hs source) source)"
    using install_loop_calls [of "eligible hs source" source PyNone] lp by simp
  have "snd (install_remote hs source) = can_handle_calls hs source @ tr"
    using lp unfolding install_remote_def eligible_def can_handle_calls_def
    by (simp del: format1.simps add: Let_def split: sum.splits)
  with sub show ?thesis by blast
qed

text \<open>
  Claim C1 (as stated, refuted). Two handlers accept the source and both install
  successfully: the loop has no exit, so the second handler's \<^verbatim>\<open>install\<close> is called after
  the first has succeeded, and the second path is what \<open>install_remote\<close> returns.
\<close>
theorem install_remote_first_success_counterexample:
  "install hA ''lp:branch-name'' = Inr (PyStr ''/srv/a'') \<and> truthy (PyStr ''/srv/a'') \<and>
   install_remote [hA, hB] ''lp:branch-name'' =
     (Inr (PyStr ''/srv/b''),
      [CanHandleCalled ''hA'' ''lp:branch-name'', CanHandleCalled ''hB'' ''lp:branch-name'',
       InstallCalled ''hA'' ''lp:branch-name'', InstallCalled ''hB'' ''lp:branch-name''])"
  by (simp add: install_remote_def hA_def hB_def)

text \<open>
  Claim C1 (amended). When no eligible handler raises anything but the unhandled-source
  signal, \<open>install_remote\<close> calls \<^verbatim>\<open>install\<close> on every eligible handler, in list order,
  and when the last value returned by an \<^verbatim>\<open>install\<close> is non-empty, that value is the
  result.
\<close>
theorem install_remote_tries_all_last_wins:
  assumes "\<forall>h\<in>set (eligible hs source). \<not> raises_other (install h source)"
  shows "snd (install_remote hs source) =
           can_handle_calls hs source @ install_calls (eligible hs source) source \<and>
         (returned_values (eligible hs source) source \<noteq> [] \<and>
          truthy (last (returned_values (eligible hs source) source)) \<longrightarrow>
            fst (install_remote hs source) =
              Inr (last (returned_values (eligible hs source) source)))"
  using install_remote_no_other_error [OF assms] by simp

theorem install_remote_tries_all_last_wins_witness:
  "list_all (\<lambda>h. \<not> raises_other (install h ''lp:x'')) (eligible [h1, hA, h2, hB] ''lp:x'') \<and>
   returned_values (eligible [h1, hA, h2, hB] ''lp:x'') ''lp:x'' = [PyStr ''/srv/a'', PyStr ''/srv/b''] \<and>
   snd (install_remote [h1, hA, h2, hB] ''lp:x'') =
     [CanHandleCalled ''h1'' ''lp:x'', CanHandleCalled ''hA'' ''lp:x'',
      CanHandleCalled ''h2'' ''lp:x'', CanHandleCalled ''hB'' ''lp:x'',
      InstallCalled ''hA'' ''lp:x'', InstallCalled ''h2'' ''lp:x'', InstallCalled ''hB'' ''lp:x''] \<and>
   fst (install_remote [h1, hA, h2, hB] ''lp:x'') = Inr (PyStr ''/srv/b'')"
proof -
  have hyp: "\<forall>h\<in>set (eligible [h1, hA, h2, hB] ''lp:x''). \<not> raises_other (install h ''lp:x'')"
    by (simp add: eligible_def h1_def h2_def hA_def hB_def)
  have rv: "returned_values (eligible [h1, hA, h2, hB] ''lp:x'') ''lp:x'' = [PyStr ''/srv/a'', PyStr ''/srv/b'']"
    by (simp add: returned_values_def eligible_def h1_def h2_def hA_def hB_def)
  have calls: "can_handle_calls [h1, hA, h2, hB] ''lp:x'' @ install_calls (eligible [h1, hA, h2, hB] ''lp:x'') ''lp:x'' =
     [CanHandleCalled ''h1'' ''lp:x'', CanHandleCalled ''hA'' ''lp:x'',
      CanHandleCalled ''h2'' ''lp:x'', CanHandleCalled ''hB'' ''lp:x'',
      InstallCalled ''hA'' ''lp:x'', InstallCalled ''h2'' ''lp:x'', InstallCalled ''hB'' ''lp:x'']"
    by (simp add: can_handle_calls_def install_calls_def eligible_def h1_def h2_def hA_def hB_def)
  show ?thesis
    using install_remote_tries_all_last_wins [OF hyp] hyp rv calls by (simp add: list_all_iff)
qed

text \<open>
  Claim C2. With H1 declining by a string, H2 accepting and raising the unhandled-source
  signal from \<^verbatim>\<open>install\<close>, and H3 accepting and returning a path, in that order,
  \<open>install_remote\<close> calls \<^verbatim>\<open>can_handle\<close> on H1, H2 and H3, never calls H1's
  \<^verbatim>\<open>install\<close>, calls H2's and then H3's, and returns H3's result.
\<close>
theorem install_remote_h1_h2_h3:
  assumes "can_handle H1 url = PyStr reason"
    and "can_handle H2 url = PyBool True"
    and "install H2 url = Inl (UnhandledSource m)"
    and "can_handle H3 url = PyBool True"
    and "install H3 url = Inr path"
    and "truthy path"
  shows "install_remote [H1, H2, H3] url =
     (Inr path,
      [CanHandleCalled (ident H1) url, CanHandleCalled (ident H2) url,
       CanHandleCalled (ident H3) url,
       InstallCalled (ident H2) url, InstallCalled (ident H3) url])"
  using assms by (simp add: install_remote_def del: format1.simps)

theorem install_remote_h1_h2_h3_witness:
  "can_handle h1 ''http://example.com/foo.tar.gz'' = PyStr ''Nope'' \<and>
   can_handle h2 ''http://example.com/foo.tar.gz'' = PyBool True \<and>
   install h2 ''http://example.com/foo.tar.gz'' = Inl (UnhandledSource NoMessage) \<and>
   can_handle h3 ''http://example.com/foo.tar.gz'' = PyBool True \<and>
   install h3 ''http://example.com/foo.tar.gz'' = Inr (PyStr ''foo'') \<and>
   truthy (PyStr ''foo'') \<and>
   install_remote [h1, h2, h3] ''http://example.com/foo.tar.gz'' =
     (Inr (PyStr ''foo''),
      [CanHandleCalled ''h1'' ''http://example.com/foo.tar.gz'',
       CanHandleCalled ''h2'' ''http://example.com/foo.tar.gz'',
       CanHandleCalled ''h3'' ''http://example.com/foo.tar.gz'',
       InstallCalled ''h2'' ''http://example.com/foo.tar.gz'',
       InstallCalled ''h3'' ''http://example.com/foo.tar.gz''])"
proof -
  have a: "can_handle h1 ''http://example.com/foo.tar.gz'' = PyStr ''Nope''"
    and b: "can_handle h2 ''http://example.com/foo.tar.gz'' = PyBool True"
    and c: "install h2 ''http://example.com/foo.tar.gz'' = Inl (UnhandledSource NoMessage)"
    and d: "can_handle h3 ''http://example.com/foo.tar.gz'' = PyBool True"
    and e: "install h3 ''http://example.com/foo.tar.gz'' = Inr (PyStr ''foo'')"
    and f: "truthy (PyStr ''foo'')"
    by (simp_all add: h1_def h2_def h3_def)
  have idents: "ident h1 = ''h1''" "ident h2 = ''h2''" "ident h3 = ''h3''"
    by (simp_all add: h1_def h2_def h3_def)
  show ?thesis
    using install_remote_h1_h2_h3 [OF a b c d e f] a b c d e f idents by simp
qed

text \<open>
  Claim C3. If no handler's \<^verbatim>\<open>can_handle\<close> returns \<^verbatim>\<open>True\<close>, or every eligible
  handler's \<^verbatim>\<open>install\<close> raises the unhandled-source signal, then \<open>install_remote\<close>
  raises the unhandled-source error whose message ends with the source string; each
  signal is caught, so that every eligible handler's \<^verbatim>\<open>install\<close> has been called, in order.
\<close>
theorem install_remote_unhandled:
  assumes "(\<forall>h\<in>set hs. can_handle h source \<noteq> PyBool True) \<or>
           (\<forall>h\<in>set (eligible hs source). raises_unhandled (install h source))"
  shows "install_remote hs source =
     (Inl (UnhandledSource (Plain (''No handler found for source '' @ source))),
      can_handle_calls hs source @ install_calls (eligible hs source) source)"
proof -
  have all: "\<forall>h\<in>set (eligible hs source). raises_unhandled (install h source)"
    using assms by (auto simp: eligible_def)
  have no_other: "\<forall>h\<in>set (eligible hs source). \<not> raises_other (install h source)"
  proof
    fix h assume "h \<in> set (eligible hs source)"
    with all have "raises_unhandled (install h source)" by blast
    then show "\<not> raises_other (install h source)"
      by (cases "install h source" rule: raises_unhandled.cases) simp_all
  qed
  have "concat (map (\<lambda>h. case install h source of Inr v \<Rightarrow> [v] | Inl e \<Rightarrow> []) (eligible hs source)) = []"
  proof -
    have "\<And>h. h \<in> set (eligible hs source) \<Longrightarrow>
            (case install h source of Inr v \<Rightarrow> [v] | Inl e \<Rightarrow> []) = []"
    proof -
      fix h assume "h \<in> set (eligible hs source)"
      with all have "raises_unhandled (install h source)" by blast
      then show "(case install h source of Inr v \<Rightarrow> [v] | Inl e \<Rightarrow> []) = []"
        by (cases "install h source") simp_all
    qed
    then show ?thesis by simp
  qed
  then have "returned_values (eligible hs source) source = []"
    by (simp add: returned_values_def)
  then show ?thesis
    using install_remote_no_other_error [OF no_other] by simp
qed

theorem install_remote_unhandled_witness:
  "list_all (\<lambda>h. raises_unhandled (install h ''git://example.com/foo''))
     (eligible [h1, h2, BaseFetchHandler ''base''] ''git://example.com/foo'') \<and>
   install_remote [h1, h2, BaseFetchHandler ''base''] ''git://example.com/foo'' =
     (Inl (UnhandledSource (Plain ''No handler found for source git://example.com/foo'')),
      [CanHandleCalled ''h1'' ''git://example.com/foo'',
       CanHandleCalled ''h2'' ''git://example.com/foo'',
       CanHandleCalled ''base'' ''git://example.com/foo'',
       InstallCalled ''h2'' ''git://example.com/foo''])"
proof -
  have hyp: "\<forall>h\<in>set (eligible [h1, h2, BaseFetchHandler ''base''] ''git://example.com/foo'').
       raises_unhandled (install h ''git://example.com/foo'')"
    by (simp add: eligible_def h1_def h2_def BaseFetchHandler_def)
  have calls: "can_handle_calls [h1, h2, BaseFetchHandler ''base''] ''git://example.com/foo'' @
      install_calls (eligible [h1, h2, BaseFetchHandler ''base''] ''git://example.com/foo'') ''git://example.com/foo'' =
      [CanHandleCalled ''h1'' ''git://example.com/foo'',
       CanHandleCalled ''h2'' ''git://example.com/foo'',
       CanHandleCalled ''base'' ''git://example.com/foo'',
       InstallCalled ''h2'' ''git://example.com/foo'']"
    by (simp add: can_handle_calls_def install_calls_def eligible_def h1_def h2_def BaseFetchHandler_def)
  show ?thesis
    using install_remote_unhandled [of "[h1, h2, BaseFetchHandler ''base'']" "''git://example.com/foo''"]
      hyp calls by (simp add: list_all_iff)
qed

text \<open>
  Claim C4. Every \<^verbatim>\<open>install\<close> call that \<open>install_remote\<close> makes is on the given source
  and on a handler whose \<^verbatim>\<open>can_handle\<close> returned exactly \<^verbatim>\<open>True\<close>; a handler that
  returned anything else (a string, a number, \<^verbatim>\<open>None\<close>) is never asked to install.
\<close>
theorem install_only_if_can_handle_is_True:
  "(InstallCalled i s \<in> set (snd (install_remote hs source)) \<longrightarrow>
      s = source \<and> (\<exists>h\<in>set hs. ident h = i \<and> can_handle h source = PyBool True)) \<and>
   (distinct (map ident hs) \<and> h \<in> set hs \<and> can_handle h source \<noteq> PyBool True \<longrightarrow>
      InstallCalled (ident h) s \<notin> set (snd (install_remote hs source)))"
proof -
  obtain tr where tr: "snd (install_remote hs source) = can_handle_calls hs source @ tr"
    and sub: "set tr \<subseteq> set (install_calls (eligible hs source) source)"
    using install_remote_trace [of hs source] by blast
  have only: "s' = source \<and> (\<exists>h\<in>set hs. ident h = j \<and> can_handle h source = PyBool True)"
    if "InstallCalled j s' \<in> set (snd (install_remote hs source))" for j s'
  proof -
    from that tr have "InstallCalled j s' \<in> set tr"
      by (auto simp: can_handle_calls_def)
    with sub have "InstallCalled j s' \<in> set (install_calls (eligible hs source) source)"
      by blast
    then show ?thesis
      by (auto simp: install_calls_def eligible_def)
  qed
  have excl: "InstallCalled (ident h) s \<notin> set (snd (install_remote hs source))"
    if d: "distinct (map ident hs)" and hin: "h \<in> set hs"
      and no: "can_handle h source \<noteq> PyBool True"
  proof
    assume "InstallCalled (ident h) s \<in> set (snd (install_remote hs source))"
    from only [OF this] obtain h' where h': "h' \<in> set hs" "ident h' = ident h"
      "can_handle h' source = PyBool True" by blast
    from d h'(1) hin h'(2) have "h' = h"
      by (meson distinct_map inj_onD)
    with h'(3) no show False by simp
  qed
  show ?thesis using only excl by blast
qed

theorem install_only_if_can_handle_is_True_witness:
  "distinct (map ident [h1, h2, h3]) \<and> h1 \<in> set [h1, h2, h3] \<and>
   can_handle h1 ''lp:x'' = PyStr ''Nope'' \<and> can_handle h1 ''lp:x'' \<noteq> PyBool True \<and>
   InstallCalled ''h1'' ''lp:x'' \<notin> set (snd (install_remote [h1, h2, h3] ''lp:x'')) \<and>
   InstallCalled ''h3'' ''lp:x'' \<in> set (snd (install_remote [h1, h2, h3] ''lp:x'')) \<and>
   (\<exists>h\<in>set [h1, h2, h3]. ident h = ''h3'' \<and> can_handle h ''lp:x'' = PyBool True)"
proof -
  have d: "distinct (map ident [h1, h2, h3])"
    by (simp add: h1_def h2_def h3_def)
  have c: "can_handle h1 ''lp:x'' = PyStr ''Nope''" "can_handle h1 ''lp:x'' \<noteq> PyBool True"
    by (simp_all add: h1_def)
  have i1: "ident h1 = ''h1''" by (simp add: h1_def)
  have called: "InstallCalled ''h3'' ''lp:x'' \<in> set (snd (install_remote [h1, h2, h3] ''lp:x''))"
    by (simp add: install_remote_def h1_def h2_def h3_def)
  show ?thesis
    using install_only_if_can_handle_is_True [of "''h3''" "''lp:x''" "[h1, h2, h3]" "''lp:x''" h1]
      d c i1 called by simp
qed

section \<open>Properties of source registration and configuration\<close>

lemma check_call_no_add_source_call:
  "add_source_calls (snd (check_call env cmd)) = []"
  by (simp add: check_call_def add_source_calls_def is_add_source_call_def)

lemma filter_installed_packages_no_add_source_call:
  "add_source_calls (snd (filter_installed_packages cache ps)) = []"
  unfolding filter_installed_packages_def filter_installed_packages_loop_eq
  by (simp add: add_source_calls_def is_add_source_call_def)

lemma apt_install_no_add_source_call:
  "add_source_calls (snd (apt_install env pkgs options fatal)) = []"
  by (simp add: apt_install_def check_call_def call_def add_source_calls_def
      is_add_source_call_def Let_def)

lemma add_source_calls_append:
  "add_source_calls (xs @ ys) = add_source_calls xs @ add_source_calls ys"
  by (simp add: add_source_calls_def)

lemma add_source_calls_simps:
  "add_source_calls [] = []"
  "add_source_calls (AddSourceCalled s k # xs) = AddSourceCalled s k # add_source_calls xs"
  "add_source_calls (Log m l # xs) = add_source_calls xs"
  "add_source_calls (Call cmd # xs) = add_source_calls xs"
  "add_source_calls (CheckCall cmd # xs) = add_source_calls xs"
  "add_source_calls (FileWrite p c # xs) = add_source_calls xs"
  "add_source_calls (CanHandleCalled i u # xs) = add_source_calls xs"
  "add_source_calls (InstallCalled i u # xs) = add_source_calls xs"
  by (simp_all add: add_source_calls_def is_add_source_call_def)

lemma add_source_calls_add_source:
  "add_source_calls (snd (add_source env source key)) = [AddSourceCalled source key]"
proof (cases source)
  case (PyStr s)
  obtain pk tr1 where f: "filter_installed_packages (apt_cache env) [''ubuntu-cloud-keyring''] = (pk, tr1)"
    by (cases "filter_installed_packages (apt_cache env) [''ubuntu-cloud-keyring'']")
  obtain r2 tr2 where a: "apt_install env (Names pk) None True = (r2, tr2)"
    by (cases "apt_install env (Names pk) None True")
  have t1: "add_source_calls tr1 = []"
    using filter_installed_packages_no_add_source_call [of "apt_cache env" "[''ubuntu-cloud-keyring'']"] f
    by simp
  have t2: "add_source_calls tr2 = []"
    using apt_install_no_add_source_call [of env "Names pk" None True] a by simp
  show ?thesis
    unfolding add_source_def PyStr
    using t1 t2
    by (cases key)
       (simp_all add: f a Let_def check_call_def add_source_calls_append add_source_calls_simps split: sum.splits prod.splits)
next
  case PyNone then show ?thesis by (simp add: add_source_def add_source_calls_simps)
next
  case (PyBool b) then show ?thesis by (simp add: add_source_def add_source_calls_simps)
next
  case (PyInt i) then show ?thesis by (simp add: add_source_def add_source_calls_simps)
next
  case (PyList xs) then show ?thesis by (simp add: add_source_def add_source_calls_simps)
qed

lemma add_sources_loop_lists:
  assumes "\<forall>i\<in>set idxs. i < length srcs \<and> i < length ks \<and>
             fst (add_source env (srcs ! i) (ks ! i)) = Inr ()"
  shows "add_sources_loop env (PyList srcs) (PyList ks) idxs =
           (Inr (), concat (map (\<lambda>i. snd (add_source env (srcs ! i) (ks ! i))) idxs))"
  using assms
proof (induction idxs)
  case Nil
  show ?case by simp
next
  case (Cons i idxs)
  obtain r tr where a: "add_source env (srcs ! i) (ks ! i) = (r, tr)"
    by (cases "add_source env (srcs ! i) (ks ! i)")
  have r: "r = Inr ()" using Cons.prems a by simp
  have i: "i < length srcs" "i < length ks" using Cons.prems by simp_all
  have rest: "add_sources_loop env (PyList srcs) (PyList ks) idxs =
           (Inr (), concat (map (\<lambda>i. snd (add_source env (srcs ! i) (ks ! i))) idxs))"
    using Cons.IH Cons.prems by simp
  show ?case
    by (simp add: i a r rest)
qed

lemma map_index_zip:
  "length xs = length ys \<Longrightarrow>
   map (\<lambda>i. f (xs ! i) (ys ! i)) [0..<length xs] = map (\<lambda>(x, y). f x y) (zip xs ys)"
  by (rule nth_equalityI) simp_all

lemma add_source_calls_concat:
  "add_source_calls (concat (map (\<lambda>(s, k). snd (add_source env s k)) ps)) =
     map (\<lambda>(s, k). AddSourceCalled s k) ps"
  by (induction ps) (auto simp: add_source_calls_append add_source_calls_add_source add_source_calls_simps)

lemma configure_sources_lists:
  assumes src: "safe_load env (config env sources_var) = Inr (PyList srcs)"
    and key: "load_keys env keys_var = Inr (PyList ks)"
    and len: "length srcs = length ks"
    and ok: "\<forall>(s, k)\<in>set (zip srcs ks). fst (add_source env s k) = Inr ()"
  shows "configure_sources env update sources_var keys_var =
     (if update then fst (apt_update env True) else Inr (),
      concat (map (\<lambda>(s, k). snd (add_source env s k)) (zip srcs ks)) @
        (if update then [CheckCall [''apt-get'', ''update'']] else []))"
proof -
  have hyp: "\<forall>i\<in>set [0..<length srcs]. i < length srcs \<and> i < length ks \<and>
             fst (add_source env (srcs ! i) (ks ! i)) = Inr ()"
  proof
    fix i assume "i \<in> set [0..<length srcs]"
    then have i: "i < length srcs" "i < length ks" using len by simp_all
    then have "(srcs ! i, ks ! i) \<in> set (zip srcs ks)"
      by (auto simp: set_zip)
    with ok have "fst (add_source env (srcs ! i) (ks ! i)) = Inr ()" by blast
    with i show "i < length srcs \<and> i < length ks \<and>
             fst (add_source env (srcs ! i) (ks ! i)) = Inr ()" by simp
  qed
  have loop: "add_sources_loop env (PyList srcs) (PyList ks) [0..<length srcs] =
     (Inr (), concat (map (\<lambda>(s, k). snd (add_source env s k)) (zip srcs ks)))"
    using add_sources_loop_lists [OF hyp]
      map_index_zip [OF len, of "\<lambda>s k. snd (add_source env s k)"] by simp
  show ?thesis
    unfolding configure_sources_def
    by (simp add: src key len [symmetric] loop apt_update_def check_call_def Let_def)
qed

lemma configure_sources_single:
  assumes src: "safe_load env (config env sources_var) = Inr (PyStr s)"
    and key: "load_keys env keys_var = Inr keys"
    and k: "keys = PyNone \<or> is_basestring keys"
  shows "configure_sources env update sources_var keys_var =
     (case fst (add_source env (PyStr s) keys) of
        Inl e \<Rightarrow> (Inl e, snd (add_source env (PyStr s) keys))
      | Inr u \<Rightarrow>
          (if update then fst (apt_update env True) else Inr (),
           snd (add_source env (PyStr s) keys) @
             (if update then [CheckCall [''apt-get'', ''update'']] else [])))"
  unfolding configure_sources_def using k
  by (auto simp add: src key apt_update_def check_call_def Let_def split: prod.splits sum.splits)

text \<open>
  Claim C5. When the decoded sources and keys are lists of different lengths,
  \<open>configure_sources\<close> raises \<^verbatim>\<open>SourceConfigError\<close> and \<open>add_source\<close> is not called
  (nothing at all has been done).
\<close>
theorem configure_sources_length_mismatch:
  assumes "safe_load env (config env sources_var) = Inr (PyList srcs)"
    and "load_keys env keys_var = Inr (PyList ks)"
    and "length srcs \<noteq> length ks"
  shows "configure_sources env update sources_var keys_var =
           (Inl (SourceConfigError (Plain ''Install sources and keys lists are different lengths'')), [])
         \<and> add_source_calls (snd (configure_sources env update sources_var keys_var)) = []"
  using assms unfolding configure_sources_def
  by (simp add: add_source_calls_simps)

theorem configure_sources_length_mismatch_witness:
  "safe_load (test_env (Some ''[sourcea, sourceb]\<newline>'') (Some ''[keya]\<newline>''))
     (config (test_env (Some ''[sourcea, sourceb]\<newline>'') (Some ''[keya]\<newline>'')) ''install_sources'') =
     Inr (PyList [PyStr ''sourcea'', PyStr ''sourceb'']) \<and>
   load_keys (test_env (Some ''[sourcea, sourceb]\<newline>'') (Some ''[keya]\<newline>'')) ''install_keys'' =
     Inr (PyList [PyStr ''keya'']) \<and>
   length [PyStr ''sourcea'', PyStr ''sourceb''] \<noteq> length [PyStr ''keya''] \<and>
   configure_sources (test_env (Some ''[sourcea, sourceb]\<newline>'') (Some ''[keya]\<newline>'')) False
       ''install_sources'' ''install_keys'' =
     (Inl (SourceConfigError (Plain ''Install sources and keys lists are different lengths'')), [])"
proof -
  let ?env = "test_env (Some ''[sourcea, sourceb]\<newline>'') (Some ''[keya]\<newline>'')"
  have a: "safe_load ?env (config ?env ''install_sources'') =
     Inr (PyList [PyStr ''sourcea'', PyStr ''sourceb''])"
    by (simp add: test_env_def test_yaml_def)
  have b: "load_keys ?env ''install_keys'' = Inr (PyList [PyStr ''keya''])"
    by (simp add: load_keys_def test_env_def test_yaml_def)
  have c: "length [PyStr ''sourcea'', PyStr ''sourceb''] \<noteq> length [PyStr ''keya'']"
    by simp
  show ?thesis
    using configure_sources_length_mismatch [OF a b c, of False] a b c by simp
qed

text \<open>
  Claim C10. When the decoded sources value is a list and the keys value is absent,
  \<open>configure_sources\<close> raises \<^verbatim>\<open>TypeError\<close> (from \<^verbatim>\<open>len(None)\<close>), not
  \<^verbatim>\<open>SourceConfigError\<close>, and \<open>add_source\<close> is not called.
\<close>
theorem configure_sources_keys_absent:
  assumes "safe_load env (config env sources_var) = Inr (PyList srcs)"
    and "config env keys_var = None"
  shows "configure_sources env update sources_var keys_var = (Inl TypeError, [])
         \<and> add_source_calls (snd (configure_sources env update sources_var keys_var)) = []"
  using assms unfolding configure_sources_def
  by (simp add: load_keys_def add_source_calls_simps)

theorem configure_sources_keys_absent_witness:
  "safe_load (test_env (Some ''[sourcea, sourceb]\<newline>'') None)
     (config (test_env (Some ''[sourcea, sourceb]\<newline>'') None) ''install_sources'') =
     Inr (PyList [PyStr ''sourcea'', PyStr ''sourceb'']) \<and>
   config (test_env (Some ''[sourcea, sourceb]\<newline>'') None) ''install_keys'' = None \<and>
   configure_sources (test_env (Some ''[sourcea, sourceb]\<newline>'') None) False
       ''install_sources'' ''install_keys'' = (Inl TypeError, [])"
proof -
  let ?env = "test_env (Some ''[sourcea, sourceb]\<newline>'') None"
  have a: "safe_load ?env (config ?env ''install_sources'') =
     Inr (PyList [PyStr ''sourcea'', PyStr ''sourceb''])"
    by (simp add: test_env_def test_yaml_def)
  have b: "config ?env ''install_keys'' = None"
    by (simp add: test_env_def)
  show ?thesis
    using configure_sources_keys_absent [OF a b, of False] a b by simp
qed

lemma startswith_append: "startswith s p \<Longrightarrow> \<exists>rest. s = p @ rest"
  unfolding startswith_def by (metis append_take_drop_id)

lemma add_source_https:
  assumes "startswith s ''https:''"
  shows "add_source env (PyStr s) key =
     (if truthy key
      then (case key of
              PyStr k \<Rightarrow> (fst (check_call env [''apt-key'', ''import'', k]),
                          [AddSourceCalled (PyStr s) key, CheckCall [''apt-key'', ''import'', k]])
            | _ \<Rightarrow> (Inl TypeError, [AddSourceCalled (PyStr s) key]))
      else (Inr (), [AddSourceCalled (PyStr s) key]))"
proof -
  obtain rest where s: "s = ''https:'' @ rest"
    using startswith_append [OF assms] by blast
  show ?thesis
    unfolding add_source_def s
    by (cases key) (simp_all add: startswith_def check_call_def)
qed

lemma add_source_ppa_http_trace:
  assumes "startswith s ''ppa:'' \<or> startswith s ''http:''"
  shows "\<exists>tr. snd (add_source env (PyStr s) key) =
           AddSourceCalled (PyStr s) key # CheckCall [''add-apt-repository'', ''--yes'', s] # tr"
  using assms unfolding add_source_def
  by (cases key) (auto simp: check_call_def Let_def split: sum.splits)

text \<open>
  Claim C7 (as stated, refuted). A source that begins with \<^verbatim>\<open>https:\<close> does not begin with
  \<^verbatim>\<open>http:\<close>: \<open>add_source\<close> takes the unrecognised branch and starts no process.
\<close>
theorem add_source_https_counterexample:
  "startswith ''https://example.com/ubuntu precise main'' ''https:'' \<and>
   add_source (test_env None None) (PyStr ''https://example.com/ubuntu precise main'') PyNone =
     (Inr (), [AddSourceCalled (PyStr ''https://example.com/ubuntu precise main'') PyNone])"
  by (simp add: add_source_def startswith_def)

text \<open>
  Claim C7 (amended). For every source that begins with \<^verbatim>\<open>ppa:\<close> or \<^verbatim>\<open>http:\<close>, the
  first thing \<open>add_source\<close> does is to run \<^verbatim>\<open>add-apt-repository --yes\<close> on the raw source
  string. A source that begins with \<^verbatim>\<open>https:\<close> never reaches that tool, and without a key
  nothing is done for it.
\<close>
theorem add_source_ppa_http:
  "(startswith s ''ppa:'' \<or> startswith s ''http:'' \<longrightarrow>
      take 2 (snd (add_source env (PyStr s) key)) =
        [AddSourceCalled (PyStr s) key, CheckCall [''add-apt-repository'', ''--yes'', s]]) \<and>
   (startswith s ''https:'' \<longrightarrow>
      (\<forall>cmd. CheckCall (''add-apt-repository'' # cmd) \<notin> set (snd (add_source env (PyStr s) key))) \<and>
      add_source env (PyStr s) PyNone = (Inr (), [AddSourceCalled (PyStr s) PyNone]))"
proof -
  have a: "take 2 (snd (add_source env (PyStr s) key)) =
        [AddSourceCalled (PyStr s) key, CheckCall [''add-apt-repository'', ''--yes'', s]]"
    if "startswith s ''ppa:'' \<or> startswith s ''http:''"
    using add_source_ppa_http_trace [OF that, of env key] by auto
  have b: "CheckCall (''add-apt-repository'' # cmd) \<notin> set (snd (add_source env (PyStr s) key))"
    if "startswith s ''https:''" for cmd
    using add_source_https [OF that, of env key] by (cases key) simp_all
  have c: "add_source env (PyStr s) PyNone = (Inr (), [AddSourceCalled (PyStr s) PyNone])"
    if "startswith s ''https:''"
    using add_source_https [OF that, of env PyNone] by simp
  show ?thesis using a b c by blast
qed

theorem add_source_ppa_http_witness:
  "startswith ''http://archive.ubuntu.com/ubuntu raring-backports main'' ''http:'' \<and>
   snd (add_source (test_env None None)
          (PyStr ''http://archive.ubuntu.com/ubuntu raring-backports main'') (PyStr ''akey'')) =
     [AddSourceCalled (PyStr ''http://archive.ubuntu.com/ubuntu raring-backports main'') (PyStr ''akey''),
      CheckCall [''add-apt-repository'', ''--yes'', ''http://archive.ubuntu.com/ubuntu raring-backports main''],
      CheckCall [''apt-key'', ''import'', ''akey'']] \<and>
   take 2 (snd (add_source (test_env None None)
          (PyStr ''http://archive.ubuntu.com/ubuntu raring-backports main'') (PyStr ''akey''))) =
     [AddSourceCalled (PyStr ''http://archive.ubuntu.com/ubuntu raring-backports main'') (PyStr ''akey''),
      CheckCall [''add-apt-repository'', ''--yes'', ''http://archive.ubuntu.com/ubuntu raring-backports main'']]"
proof -
  have h: "startswith ''http://archive.ubuntu.com/ubuntu raring-backports main'' ''http:''"
    by (simp add: startswith_def)
  have e: "snd (add_source (test_env None None)
          (PyStr ''http://archive.ubuntu.com/ubuntu raring-backports main'') (PyStr ''akey'')) =
     [AddSourceCalled (PyStr ''http://archive.ubuntu.com/ubuntu raring-backports main'') (PyStr ''akey''),
      CheckCall [''add-apt-repository'', ''--yes'', ''http://archive.ubuntu.com/ubuntu raring-backports main''],
      CheckCall [''apt-key'', ''import'', ''akey'']]"
    by (simp add: add_source_def startswith_def check_call_def test_env_def)
  show ?thesis
    using add_source_ppa_http
      [of "''http://archive.ubuntu.com/ubuntu raring-backports main''" "test_env None None" "PyStr ''akey''"]
      h e by simp
qed

text \<open>
  Claim C6. With a single-string sources value and keys absent or a single string,
  \<open>configure_sources\<close> calls \<open>add_source\<close> exactly once, with that pair. With lists of
  equal length (and every \<open>add_source\<close> call returning) it calls \<open>add_source\<close> once per
  index pair, in list order. When \<open>update\<close> is true, \<^verbatim>\<open>apt-get update\<close> is run through
  \<^verbatim>\<open>check_call\<close> (that is, with \<^verbatim>\<open>fatal=True\<close>) after everything the \<open>add_source\<close>
  calls did.
\<close>
theorem configure_sources_adds_each_pair:
  assumes src: "safe_load env (config env sources_var) = Inr sources"
    and key: "load_keys env keys_var = Inr keys"
  shows
   "(is_basestring sources \<and> (keys = PyNone \<or> is_basestring keys) \<longrightarrow>
       add_source_calls (snd (configure_sources env update sources_var keys_var)) =
         [AddSourceCalled sources keys] \<and>
       (update \<and> fst (add_source env sources keys) = Inr () \<longrightarrow>
          snd (configure_sources env update sources_var keys_var) =
            snd (add_source env sources keys) @ [CheckCall [''apt-get'', ''update'']])) \<and>
    (\<forall>srcs ks. sources = PyList srcs \<and> keys = PyList ks \<and> length srcs = length ks \<and>
        (\<forall>(s, k)\<in>set (zip srcs ks). fst (add_source env s k) = Inr ()) \<longrightarrow>
       add_source_calls (snd (configure_sources env update sources_var keys_var)) =
         map (\<lambda>(s, k). AddSourceCalled s k) (zip srcs ks) \<and>
       (update \<longrightarrow>
          snd (configure_sources env update sources_var keys_var) =
            concat (map (\<lambda>(s, k). snd (add_source env s k)) (zip srcs ks)) @
              [CheckCall [''apt-get'', ''update'']]))"
proof (intro conjI impI allI)
  assume a: "is_basestring sources \<and> (keys = PyNone \<or> is_basestring keys)"
  then obtain s where s: "sources = PyStr s" by (cases sources) simp_all
  from a have k: "keys = PyNone \<or> is_basestring keys" by simp
  note cs = configure_sources_single [OF src [unfolded s] key k]
  show "add_source_calls (snd (configure_sources env update sources_var keys_var)) =
         [AddSourceCalled sources keys]"
    using add_source_calls_add_source [of env "PyStr s" keys]
    by (simp add: cs s add_source_calls_append add_source_calls_simps split: sum.splits)
  assume "update \<and> fst (add_source env sources keys) = Inr ()"
  then show "snd (configure_sources env update sources_var keys_var) =
            snd (add_source env sources keys) @ [CheckCall [''apt-get'', ''update'']]"
    by (simp add: cs s)
next
  fix srcs ks
  assume a: "sources = PyList srcs \<and> keys = PyList ks \<and> length srcs = length ks \<and>
        (\<forall>(s, k)\<in>set (zip srcs ks). fst (add_source env s k) = Inr ())"
  then have s: "sources = PyList srcs" and k: "keys = PyList ks"
    and len: "length srcs = length ks"
    and ok: "\<forall>(s, k)\<in>set (zip srcs ks). fst (add_source env s k) = Inr ()"
    by simp_all
  note cs = configure_sources_lists [OF src [unfolded s] key [unfolded k] len ok]
  show "add_source_calls (snd (configure_sources env update sources_var keys_var)) =
         map (\<lambda>(s, k). AddSourceCalled s k) (zip srcs ks)"
    by (simp add: cs add_source_calls_append add_source_calls_concat add_source_calls_simps)
  assume update
  then show "snd (configure_sources env update sources_var keys_var) =
            concat (map (\<lambda>(s, k). snd (add_source env s k)) (zip srcs ks)) @
              [CheckCall [''apt-get'', ''update'']]"
    by (simp add: cs)
qed

theorem configure_sources_adds_each_pair_witness:
  "safe_load (test_env (Some ''[sourcea, sourceb]\<newline>'') (Some ''[keya, null]\<newline>''))
     (config (test_env (Some ''[sourcea, sourceb]\<newline>'') (Some ''[keya, null]\<newline>'')) ''install_sources'') =
     Inr (PyList [PyStr ''sourcea'', PyStr ''sourceb'']) \<and>
   load_keys (test_env (Some ''[sourcea, sourceb]\<newline>'') (Some ''[keya, null]\<newline>'')) ''install_keys'' =
     Inr (PyList [PyStr ''keya'', PyNone]) \<and>
   list_all (\<lambda>(s, k).
        fst (add_source (test_env (Some ''[sourcea, sourceb]\<newline>'') (Some ''[keya, null]\<newline>'')) s k) = Inr ())
     (zip [PyStr ''sourcea'', PyStr ''sourceb''] [PyStr ''keya'', PyNone]) \<and>
   add_source_calls
     (snd (configure_sources (test_env (Some ''[sourcea, sourceb]\<newline>'') (Some ''[keya, null]\<newline>''))
             True ''install_sources'' ''install_keys'')) =
     [AddSourceCalled (PyStr ''sourcea'') (PyStr ''keya''), AddSourceCalled (PyStr ''sourceb'') PyNone] \<and>
   snd (configure_sources (test_env (Some ''[sourcea, sourceb]\<newline>'') (Some ''[keya, null]\<newline>''))
          True ''install_sources'' ''install_keys'') =
     [AddSourceCalled (PyStr ''sourcea'') (PyStr ''keya''), CheckCall [''apt-key'', ''import'', ''keya''],
      AddSourceCalled (PyStr ''sourceb'') PyNone, CheckCall [''apt-get'', ''update'']]"
proof -
  let ?env = "test_env (Some ''[sourcea, sourceb]\<newline>'') (Some ''[keya, null]\<newline>'')"
  have a: "safe_load ?env (config ?env ''install_sources'') =
     Inr (PyList [PyStr ''sourcea'', PyStr ''sourceb''])"
    by (simp add: test_env_def test_yaml_def)
  have b: "load_keys ?env ''install_keys'' = Inr (PyList [PyStr ''keya'', PyNone])"
    by (simp add: load_keys_def test_env_def test_yaml_def)
  have s1: "add_source ?env (PyStr ''sourcea'') (PyStr ''keya'') =
     (Inr (), [AddSourceCalled (PyStr ''sourcea'') (PyStr ''keya''), CheckCall [''apt-key'', ''import'', ''keya'']])"
    by (simp add: add_source_def startswith_def check_call_def test_env_def)
  have s2: "add_source ?env (PyStr ''sourceb'') PyNone =
     (Inr (), [AddSourceCalled (PyStr ''sourceb'') PyNone])"
    by (simp add: add_source_def startswith_def)
  have ok: "\<forall>(s, k)\<in>set (zip [PyStr ''sourcea'', PyStr ''sourceb''] [PyStr ''keya'', PyNone]).
      fst (add_source ?env s k) = Inr ()"
    by (simp add: s1 s2)
  have "[PyStr ''sourcea'', PyStr ''sourceb''] = [PyStr ''sourcea'', PyStr ''sourceb''] \<and>
        PyList [PyStr ''keya'', PyNone] = PyList [PyStr ''keya'', PyNone] \<and>
        length [PyStr ''sourcea'', PyStr ''sourceb''] = length [PyStr ''keya'', PyNone] \<and>
        (\<forall>(s, k)\<in>set (zip [PyStr ''sourcea'', PyStr ''sourceb''] [PyStr ''keya'', PyNone]).
           fst (add_source ?env s k) = Inr ())"
    using ok by simp
  with configure_sources_adds_each_pair [OF a b, of True]
  have "add_source_calls (snd (configure_sources ?env True ''install_sources'' ''install_keys'')) =
         map (\<lambda>(s, k). AddSourceCalled s k) (zip [PyStr ''sourcea'', PyStr ''sourceb''] [PyStr ''keya'', PyNone]) \<and>
       snd (configure_sources ?env True ''install_sources'' ''install_keys'') =
            concat (map (\<lambda>(s, k). snd (add_source ?env s k))
              (zip [PyStr ''sourcea'', PyStr ''sourceb''] [PyStr ''keya'', PyNone])) @
              [CheckCall [''apt-get'', ''update'']]"
    by blast
  then show ?thesis
    using a b ok by (simp add: s1 s2 add_source_calls_simps)
qed

section \<open>Properties of the URL utilities\<close>

























subsection \<open>URLs of the form scheme://host/path\<close>


























end
